theory Spec2Isabelle
  imports Main "HOL-Library.Multiset"
begin

section \<open>The thought chain of \<^verbatim>\<open>streamlit_app.py\<close>\<close>

subsection \<open>Data model\<close>

text \<open>
  \<^verbatim>\<open>ThoughtTypes\<close> is the enum of \<^verbatim>\<open>local_utils/prompts.py\<close>. The application names one
  member, \<^verbatim>\<open>ThoughtTypes.REFLECT\<close>; every other member is \<open>OTHER\<close> with its name.
\<close>

datatype ThoughtTypes = REFLECT | OTHER string

fun thought_type_text :: "ThoughtTypes \<Rightarrow> string" where
  "thought_type_text REFLECT = ''REFLECT''"
| "thought_type_text (OTHER name) = name"

text \<open>
  The two response classes of \<^verbatim>\<open>local_utils/brain.py\<close>, with the attributes the application
  reads: \<^verbatim>\<open>new_thought.response_type\<close>, \<^verbatim>\<open>new_thought.rationale\<close> and
  \<^verbatim>\<open>thought_response.response_type\<close>. What else a response holds is not read by the
  application and is left out.
\<close>

record StartNewThoughtResponse =
  response_type :: ThoughtTypes
  rationale :: string

record ReflectThoughtResponse =
  reflect_response_type :: string

text \<open>
  \<^verbatim>\<open>class ThoughtData(BaseSessionData)\<close>, lines 23 to 31. \<open>session_id\<close> is the attribute of the
  base class that line 132 reads; the other fields are the class's own, in the order of
  their declaration.
\<close>

record ThoughtData =
  session_id :: string
  thought_model :: string
  trigger_new_thought :: bool
  new_thought :: "StartNewThoughtResponse option"
  this_thought_responses :: "ReflectThoughtResponse list"
  current_thought_index :: int
  thought_complete :: bool
  thought_had_error :: bool
  thought_status_msgs :: "string list"

text \<open>\<^verbatim>\<open>ThoughtData.get_thought_status\<close>, lines 41 to 46.\<close>

definition get_thought_status :: "ThoughtData \<Rightarrow> string" where
  "get_thought_status self =
     (if thought_had_error self then ''error''
      else if thought_complete self then ''complete''
      else ''running'')"

subsection \<open>The state a script run works on\<close>

text \<open>
  What the reasoning engine was asked during a run, kept as a trace: one entry per call,
  with whether the call returned (\<open>True\<close>) or raised (\<open>False\<close>). The trace is
  bookkeeping of the model; the application does not read it.
\<close>

datatype engine_call = Classify bool | Step bool

datatype error = EngineError string | ValueError string | AttributeError string | ValidationError

text \<open>
  A run of the script works on the session object in memory (\<open>session_data\<close>), the copy
  kept in the framework's session state (\<open>session_state\<close>) and the directory of persisted
  sessions \<^verbatim>\<open>settings.session_data\<close> (\<open>persisted\<close>, one entry per session id).
\<close>

record world =
  session_data :: ThoughtData
  session_state :: "ThoughtData option"
  persisted :: "string \<rightharpoonup> ThoughtData"
  engine_calls :: "engine_call list"

text \<open>
  Modelled from the spec: \<^verbatim>\<open>BaseSessionData.save_to_session_state\<close> of
  \<^verbatim>\<open>local_utils/session_data.py\<close>, which is not among the sources. It stores the session
  object in the session-scoped state of the user interface framework (section 9, "global
  UI-framework session state"); the persistence store is not touched.
\<close>

definition save_to_session_state :: "world \<Rightarrow> world" where
  "save_to_session_state w = w\<lparr>session_state := Some (session_data w)\<rparr>"

text \<open>
  Modelled from the spec: \<^verbatim>\<open>BaseSessionData.persist_session_state\<close> of
  \<^verbatim>\<open>local_utils/session_data.py\<close>, which is not among the sources. Section 4.1:
  \<open>put(id, record)\<close> durably overwrites the stored value for \<open>id\<close>.
\<close>

definition persist_session_state :: "world \<Rightarrow> world" where
  "persist_session_state w =
     w\<lparr>persisted := (persisted w)(session_id (session_data w) \<mapsto> session_data w)\<rparr>"

text \<open>\<^verbatim>\<open>ThoughtData.add_reflect_thought_response\<close>, lines 33 to 35.\<close>

definition add_reflect_thought_response :: "ReflectThoughtResponse \<Rightarrow> world \<Rightarrow> world" where
  "add_reflect_thought_response response w =
     save_to_session_state
       (w\<lparr>session_data := (session_data w)
            \<lparr>this_thought_responses := this_thought_responses (session_data w) @ [response]\<rparr>\<rparr>)"

text \<open>\<^verbatim>\<open>ThoughtData.add_thought_status_msg\<close>, lines 37 to 39.\<close>

definition add_thought_status_msg :: "string \<Rightarrow> world \<Rightarrow> world" where
  "add_thought_status_msg msg w =
     save_to_session_state
       (w\<lparr>session_data := (session_data w)
            \<lparr>thought_status_msgs := thought_status_msgs (session_data w) @ [msg]\<rparr>\<rparr>)"

text \<open>\<^verbatim>\<open>trigger_chain_of_thought\<close>, lines 49 to 51.\<close>

definition trigger_chain_of_thought :: "string \<Rightarrow> world \<Rightarrow> world" where
  "trigger_chain_of_thought model w =
     w\<lparr>session_data := (session_data w)\<lparr>trigger_new_thought := True, thought_model := model\<rparr>\<rparr>"

subsection \<open>One run of \<^verbatim>\<open>render_main_functionality\<close>\<close>

text \<open>
  The reasoning engine is opaque: for one run, \<open>brain\<close> says what each of its two
  operations answers, or the error it raises.
\<close>

record brain =
  get_new_thought_type :: "error + StartNewThoughtResponse"
  run_reflect_thought :: "string \<Rightarrow> ReflectThoughtResponse list \<Rightarrow> error + ReflectThoughtResponse"

text \<open>
  What the user did before the run: submitted the "Trigger new thought" form with a model
  (line 92), or pressed "Continue thought chain" (line 155).
\<close>

record widgets =
  form_submit :: "string option"
  continue_clicked :: bool

text \<open>
  How a run ends: it reaches the end of the function, stops at \<^verbatim>\<open>st.stop()\<close> (line 112),
  asks for a rerun (line 94), or an exception leaves the function.
\<close>

datatype outcome = Rendered | Stopped | RerunRequested | Raised error

text \<open>Lines 131 to 133: the first two status messages of a chain.\<close>

definition initial_status_msgs :: "world \<Rightarrow> world" where
  "initial_status_msgs w =
     (if thought_status_msgs (session_data w) = [] then
        add_thought_status_msg (''Thought Model: '' @ thought_model (session_data w))
          (add_thought_status_msg (''Thought initiated '' @ session_id (session_data w)) w)
      else w)"

text \<open>
  Lines 145 to 149: the kick-off. The result is the error that left the block, if one
  did, and the state at that moment.
\<close>

definition select_thought_type :: "brain \<Rightarrow> world \<Rightarrow> error option \<times> world" where
  "select_thought_type b w =
     (case new_thought (session_data w) of
        Some k \<Rightarrow> (None, w)
      | None \<Rightarrow>
          (case get_new_thought_type b of
             Inl e \<Rightarrow> (Some e, w\<lparr>engine_calls := engine_calls w @ [Classify False]\<rparr>)
           | Inr k \<Rightarrow>
               (None,
                persist_session_state
                  (add_thought_status_msg (''Thought Type: '' @ thought_type_text (response_type k))
                     (w\<lparr>session_data := (session_data w)\<lparr>new_thought := Some k\<rparr>,
                        engine_calls := engine_calls w @ [Classify True]\<rparr>)))))"

text \<open>
  Lines 155 to 162: the "continue" action. The block runs after lines 145 to 149, so
  \<open>new_thought\<close> is set; reading \<^verbatim>\<open>.rationale\<close> of \<^verbatim>\<open>None\<close> would raise
  \<^verbatim>\<open>AttributeError\<close>.
\<close>

definition continue_thought_chain :: "brain \<Rightarrow> widgets \<Rightarrow> world \<Rightarrow> error option \<times> world" where
  "continue_thought_chain b ui w =
     (if continue_clicked ui then
        (case new_thought (session_data w) of
           None \<Rightarrow> (Some (AttributeError ''rationale''), w)
         | Some k \<Rightarrow>
             (case run_reflect_thought b (rationale k) (this_thought_responses (session_data w)) of
                Inl e \<Rightarrow> (Some e, w\<lparr>engine_calls := engine_calls w @ [Step False]\<rparr>)
              | Inr thought_response \<Rightarrow>
                  (None,
                   persist_session_state
                     (add_thought_status_msg (''Action: '' @ reflect_response_type thought_response)
                        (add_reflect_thought_response thought_response
                           (w\<lparr>engine_calls := engine_calls w @ [Step True]\<rparr>))))))
      else (None, w))"

text \<open>Lines 165 to 184: the display of the chain; only a REFLECT chain is supported.\<close>

definition display_responses :: "world \<Rightarrow> outcome" where
  "display_responses w =
     (if this_thought_responses (session_data w) \<noteq> [] then
        (case new_thought (session_data w) of
           None \<Rightarrow> Raised (AttributeError ''response_type'')
         | Some k \<Rightarrow>
             (if response_type k = REFLECT then Rendered
              else Raised (ValueError (''Unsupported thought_type: '' @ thought_type_text (response_type k)))))
      else Rendered)"

text \<open>
  \<^verbatim>\<open>render_main_functionality\<close>, lines 82 to 188, for a run in which no thought id is
  entered in "Load specific thought" (that branch hands over to \<^verbatim>\<open>clear_session\<close> and
  \<^verbatim>\<open>init_session\<close> of the base class). Widgets only draw; what is kept is what the run does
  to the session, the store and the engine.
\<close>

definition render_main_functionality :: "brain \<Rightarrow> widgets \<Rightarrow> world \<Rightarrow> outcome \<times> world" where
  "render_main_functionality b ui w =
     (if \<not> trigger_new_thought (session_data w) then
        (case form_submit ui of
           Some model \<Rightarrow> (RerunRequested, trigger_chain_of_thought model w)
         | None \<Rightarrow> (Stopped, w))
      else
        (case select_thought_type b (initial_status_msgs w) of
           (Some e, w2) \<Rightarrow> (Raised e, w2)
         | (None, w2) \<Rightarrow>
             (case continue_thought_chain b ui w2 of
                (Some e, w3) \<Rightarrow> (Raised e, w3)
              | (None, w3) \<Rightarrow> (display_responses w3, w3))))"

text \<open>
  A session is a sequence of runs; each run has its own widget input and its own answers
  of the engine. The session object lives on from one run to the next.
\<close>

fun run_session :: "(brain \<times> widgets) list \<Rightarrow> world \<Rightarrow> world" where
  "run_session [] w = w"
| "run_session ((b, ui) # rest) w = run_session rest (snd (render_main_functionality b ui w))"

subsection \<open>Measures of a session\<close>

text \<open>The entries of the trace that are calls of the kick-off operation.\<close>

fun is_classify :: "engine_call \<Rightarrow> bool" where
  "is_classify (Classify ok) = True"
| "is_classify (Step ok) = False"

text \<open>
  The kick-off calls that returned so far, plus one while the kick-off is still to be
  made.
\<close>

definition classify_budget :: "world \<Rightarrow> nat" where
  "classify_budget w =
     count_list (engine_calls w) (Classify True)
       + (if new_thought (session_data w) = None then 1 else 0)"

text \<open>The engine calls a run added to the trace of \<open>w\<close>.\<close>

definition calls_since :: "world \<Rightarrow> world \<Rightarrow> engine_call list" where
  "calls_since w w' = drop (length (engine_calls w)) (engine_calls w')"

text \<open>The store holds the session object as it is in memory.\<close>

definition stored :: "world \<Rightarrow> bool" where
  "stored w = (persisted w (session_id (session_data w)) = Some (session_data w))"

text \<open>The session state holds the session object as it is in memory.\<close>

definition saved :: "world \<Rightarrow> bool" where
  "saved w = (session_state w = Some (session_data w))"

text \<open>
  Relations between the state before and after a piece of a run: the session object was
  left alone or has been saved; the steps grew by the step calls that returned; a
  kick-off that was set is kept and not asked for again.
\<close>

definition quiet_or_saved :: "world \<Rightarrow> world \<Rightarrow> bool" where
  "quiet_or_saved w w' =
     (if session_data w' = session_data w \<and> session_state w' = session_state w then True
      else saved w')"

definition steps_balance :: "world \<Rightarrow> world \<Rightarrow> bool" where
  "steps_balance w w' =
     (length (this_thought_responses (session_data w')) + count_list (engine_calls w) (Step True)
      = length (this_thought_responses (session_data w)) + count_list (engine_calls w') (Step True))"

definition kickoff_kept :: "world \<Rightarrow> world \<Rightarrow> bool" where
  "kickoff_kept w w' =
     (case new_thought (session_data w) of
        None \<Rightarrow> True
      | Some k \<Rightarrow>
          new_thought (session_data w') = Some k
          \<and> filter is_classify (engine_calls w') = filter is_classify (engine_calls w))"

subsection \<open>The listing queries of \<^verbatim>\<open>local_utils/ui_lib.py\<close>\<close>

text \<open>
  The class \<^verbatim>\<open>Thought\<close> and the store \<^verbatim>\<open>ThoughtMemory\<close> are declared in
  \<^verbatim>\<open>local_utils/v2/thoughts.py\<close>, which is not among the sources. The queries are modelled
  for any such class: \<open>'t\<close> is the type of its objects, \<open>'d\<close> the type of the dictionaries
  that \<^verbatim>\<open>model_dump\<close> gives, and \<open>model_validate\<close> is the validation of one dictionary
  against the class, \<open>None\<close> when the dictionary does not validate.
\<close>

record ('t, 'd) Thought_model =
  model_dump :: "'t \<Rightarrow> 'd"
  model_validate :: "'d \<Rightarrow> 't option"

text \<open>
  The store, as the object \<^verbatim>\<open>setup_memory()\<close> returns: the answers of the two methods the
  queries call.
\<close>

record 't ThoughtMemory =
  memory_list_recently_completed_thoughts :: "nat \<Rightarrow> 't list"
  memory_list_incomplete_thoughts :: "'t list"

text \<open>
  \<^verbatim>\<open>_list_recent_thoughts\<close>, lines 24 to 28, and \<^verbatim>\<open>_list_incomplete_thoughts\<close>, lines 36 to
  40 (a name cannot start with an underscore here): the bodies of the two functions, which
  is what a call computes when the cache holds no fresh entry. The decorator
  \<^verbatim>\<open>st.cache_data\<close> is wrapped around them below.
\<close>

definition private_list_recent_thoughts ::
    "('t, 'd) Thought_model \<Rightarrow> 't ThoughtMemory \<Rightarrow> nat \<Rightarrow> 'd list" where
  "private_list_recent_thoughts M memory num =
     map (model_dump M) (memory_list_recently_completed_thoughts memory num)"

definition private_list_incomplete_thoughts ::
    "('t, 'd) Thought_model \<Rightarrow> 't ThoughtMemory \<Rightarrow> 'd list" where
  "private_list_incomplete_thoughts M memory =
     map (model_dump M) (memory_list_incomplete_thoughts memory)"

text \<open>
  \<^verbatim>\<open>TypeAdapter(list[Thought]).validate_python\<close>: every dictionary of the list is validated
  against the class, and one that does not validate makes the call raise
  \<^verbatim>\<open>ValidationError\<close>.
\<close>

fun validate_python :: "('t, 'd) Thought_model \<Rightarrow> 'd list \<Rightarrow> error + 't list" where
  "validate_python M [] = Inr []"
| "validate_python M (d # ds) =
     (case model_validate M d of
        None \<Rightarrow> Inl ValidationError
      | Some t \<Rightarrow>
          (case validate_python M ds of
             Inl e \<Rightarrow> Inl e
           | Inr ts \<Rightarrow> Inr (t # ts)))"

text \<open>\<^verbatim>\<open>list_recent_thoughts\<close>, lines 31 to 33, and \<^verbatim>\<open>list_incomplete_thoughts\<close>, lines 43 to 45.\<close>

definition list_recent_thoughts ::
    "('t, 'd) Thought_model \<Rightarrow> 't ThoughtMemory \<Rightarrow> nat \<Rightarrow> error + 't list" where
  "list_recent_thoughts M memory num = validate_python M (private_list_recent_thoughts M memory num)"

definition list_incomplete_thoughts ::
    "('t, 'd) Thought_model \<Rightarrow> 't ThoughtMemory \<Rightarrow> error + 't list" where
  "list_incomplete_thoughts M memory = validate_python M (private_list_incomplete_thoughts M memory)"

text \<open>
  Modelled from the spec: the two methods of \<^verbatim>\<open>ThoughtMemory\<close>
  (\<^verbatim>\<open>local_utils/v2/thoughts.py\<close>, not among the sources). Section 4.2:
  \<open>recently_completed(n)\<close> is "the n most recently completed records" and \<open>incomplete()\<close>
  is "all records with completed == false". The store is the list of its records;
  \<open>completed\<close> and \<open>recency\<close> read a record.
\<close>

definition completed_by_recency :: "('t \<Rightarrow> bool) \<Rightarrow> ('t \<Rightarrow> nat) \<Rightarrow> 't list \<Rightarrow> 't list" where
  "completed_by_recency completed recency table = rev (sort_key recency (filter completed table))"

definition spec_memory :: "('t \<Rightarrow> bool) \<Rightarrow> ('t \<Rightarrow> nat) \<Rightarrow> 't list \<Rightarrow> 't ThoughtMemory" where
  "spec_memory completed recency table =
     \<lparr>memory_list_recently_completed_thoughts =
        (\<lambda>n. take n (completed_by_recency completed recency table)),
      memory_list_incomplete_thoughts = filter (\<lambda>t. \<not> completed t) table\<rparr>"

subsection \<open>The cache of the listing queries\<close>

text \<open>
  Modelled from the spec: the decorator \<^verbatim>\<open>st.cache_data(ttl=timedelta(seconds=5))\<close> of lines
  24 and 36, which is the user interface framework's and not among the sources. Sections
  4.2 and 9: the cache holds, per key, a value and the time it was computed at; a call
  within the freshness window returns the stored value "without touching" the store, "a
  call after expiry recomputes and resets the window", and the key "must include all call
  arguments". The clock is explicit and counts milliseconds; \<open>ttl\<close> is the five seconds of
  lines 24 and 36. The window of an entry runs from the moment its value was computed.
\<close>

record 'v cache_entry =
  cached_value :: 'v
  computed_at :: nat

definition ttl :: nat where
  "ttl = 5000"

definition fresh :: "nat \<Rightarrow> 'v cache_entry \<Rightarrow> bool" where
  "fresh now e = (now < computed_at e + ttl)"

text \<open>
  A call of a decorated function at time \<open>now\<close> with argument \<open>key\<close>: the value returned,
  whether the body of the function ran, and the cache afterwards.
\<close>

definition cache_data ::
    "('k \<Rightarrow> 'v) \<Rightarrow> nat \<Rightarrow> 'k \<Rightarrow> ('k \<rightharpoonup> 'v cache_entry)
      \<Rightarrow> ('v \<times> bool) \<times> ('k \<rightharpoonup> 'v cache_entry)" where
  "cache_data body now key cache =
     (case cache key of
        Some e \<Rightarrow>
          if fresh now e then ((cached_value e, False), cache)
          else ((body key, True), cache(key \<mapsto> \<lparr>cached_value = body key, computed_at = now\<rparr>))
      | None \<Rightarrow> ((body key, True), cache(key \<mapsto> \<lparr>cached_value = body key, computed_at = now\<rparr>)))"

text \<open>
  The two decorated functions, each with a cache of its own. Running the body is the only
  way a call reaches the store: the body calls \<^verbatim>\<open>setup_memory()\<close> and a method of the
  store.
\<close>

definition cached_list_recent_thoughts ::
    "('t, 'd) Thought_model \<Rightarrow> 't ThoughtMemory \<Rightarrow> nat \<Rightarrow> nat \<Rightarrow> (nat \<rightharpoonup> 'd list cache_entry)
      \<Rightarrow> ('d list \<times> bool) \<times> (nat \<rightharpoonup> 'd list cache_entry)" where
  "cached_list_recent_thoughts M memory now num cache =
     cache_data (private_list_recent_thoughts M memory) now num cache"

definition cached_list_incomplete_thoughts ::
    "('t, 'd) Thought_model \<Rightarrow> 't ThoughtMemory \<Rightarrow> nat \<Rightarrow> (unit \<rightharpoonup> 'd list cache_entry)
      \<Rightarrow> ('d list \<times> bool) \<times> (unit \<rightharpoonup> 'd list cache_entry)" where
  "cached_list_incomplete_thoughts M memory now cache =
     cache_data (\<lambda>u. private_list_incomplete_thoughts M memory) now () cache"

subsection \<open>Serialized records\<close>

text \<open>
  Modelled from the spec: the persisted record format (section 6, "one serialized record
  per thought id; must round-trip losslessly"). The writer,
  \<^verbatim>\<open>BaseSessionData.persist_session_state\<close>, is not among the sources, and the encoder and the
  decoder of a record are generated by the pydantic library from the declaration of the
  class. The model has what the declaration of \<^verbatim>\<open>ThoughtData\<close> (lines 23 to 31) fixes: one
  entry per field, under the name of the field, in the order of declaration, and a missing
  entry read as the default of the field. A serialized record is the JSON value it
  denotes. On reading, the library also converts some values of another type; the model
  accepts a value of the declared type only.
\<close>

datatype pyval = PNone | PBool bool | PInt int | PStr string | PList "pyval list"
  | PDict "(string \<times> pyval) list"

text \<open>
  The encoders and decoders of the two response classes of \<^verbatim>\<open>local_utils/brain.py\<close> are
  parameters. A response is written as a dictionary.
\<close>

record nested_models =
  dump_kickoff :: "StartNewThoughtResponse \<Rightarrow> (string \<times> pyval) list"
  validate_kickoff :: "pyval \<Rightarrow> StartNewThoughtResponse option"
  dump_step :: "ReflectThoughtResponse \<Rightarrow> (string \<times> pyval) list"
  validate_step :: "pyval \<Rightarrow> ReflectThoughtResponse option"

text \<open>The validation of a value against \<^verbatim>\<open>str\<close>, \<^verbatim>\<open>bool\<close>, \<^verbatim>\<open>int\<close>, a list and \<^verbatim>\<open>Optional\<close>.\<close>

fun str_field :: "pyval \<Rightarrow> string option" where
  "str_field (PStr s) = Some s"
| "str_field v = None"

fun bool_field :: "pyval \<Rightarrow> bool option" where
  "bool_field (PBool b) = Some b"
| "bool_field v = None"

fun int_field :: "pyval \<Rightarrow> int option" where
  "int_field (PInt i) = Some i"
| "int_field v = None"

fun those_valid :: "'a option list \<Rightarrow> 'a list option" where
  "those_valid [] = Some []"
| "those_valid (None # rest) = None"
| "those_valid (Some x # rest) = (case those_valid rest of None \<Rightarrow> None | Some xs \<Rightarrow> Some (x # xs))"

fun list_field :: "(pyval \<Rightarrow> 'a option) \<Rightarrow> pyval \<Rightarrow> 'a list option" where
  "list_field item (PList vs) = those_valid (map item vs)"
| "list_field item v = None"

fun optional_field :: "(pyval \<Rightarrow> 'a option) \<Rightarrow> pyval \<Rightarrow> 'a option option" where
  "optional_field item PNone = Some None"
| "optional_field item v = (case item v of None \<Rightarrow> None | Some x \<Rightarrow> Some (Some x))"

text \<open>The entry of a field in a dictionary, or the default of the field (\<open>None\<close>: required).\<close>

definition lookup_field :: "(string \<times> pyval) list \<Rightarrow> string \<Rightarrow> 'a option \<Rightarrow> (pyval \<Rightarrow> 'a option) \<Rightarrow> 'a option" where
  "lookup_field kv name dflt item =
     (case map_of kv name of None \<Rightarrow> dflt | Some v \<Rightarrow> item v)"

text \<open>\<^verbatim>\<open>ThoughtData.model_dump\<close> and \<^verbatim>\<open>ThoughtData.model_dump_json\<close>.\<close>

definition model_dump_dict :: "nested_models \<Rightarrow> ThoughtData \<Rightarrow> (string \<times> pyval) list" where
  "model_dump_dict c self =
     [(''session_id'', PStr (session_id self)),
      (''thought_model'', PStr (thought_model self)),
      (''trigger_new_thought'', PBool (trigger_new_thought self)),
      (''new_thought'',
         (case new_thought self of None \<Rightarrow> PNone | Some k \<Rightarrow> PDict (dump_kickoff c k))),
      (''this_thought_responses'',
         PList (map (\<lambda>r. PDict (dump_step c r)) (this_thought_responses self))),
      (''current_thought_index'', PInt (current_thought_index self)),
      (''thought_complete'', PBool (thought_complete self)),
      (''thought_had_error'', PBool (thought_had_error self)),
      (''thought_status_msgs'', PList (map PStr (thought_status_msgs self)))]"

definition ThoughtData_model_dump :: "nested_models \<Rightarrow> ThoughtData \<Rightarrow> pyval" where
  "ThoughtData_model_dump c self = PDict (model_dump_dict c self)"

definition model_dump_json :: "nested_models \<Rightarrow> ThoughtData \<Rightarrow> pyval" where
  "model_dump_json c self = ThoughtData_model_dump c self"

text \<open>
  \<^verbatim>\<open>ThoughtData.model_validate\<close> and \<^verbatim>\<open>ThoughtData.model_validate_json\<close> (line 209); the
  defaults are those of lines 24 to 31.
\<close>

definition validate_fields :: "nested_models \<Rightarrow> (string \<times> pyval) list \<Rightarrow> ThoughtData option" where
  "validate_fields c kv =
     (case lookup_field kv ''session_id'' None str_field of None \<Rightarrow> None | Some sid \<Rightarrow>
      case lookup_field kv ''thought_model'' (Some []) str_field of None \<Rightarrow> None | Some m \<Rightarrow>
      case lookup_field kv ''trigger_new_thought'' (Some False) bool_field of None \<Rightarrow> None | Some trig \<Rightarrow>
      case lookup_field kv ''new_thought'' (Some None) (optional_field (validate_kickoff c)) of None \<Rightarrow> None | Some k \<Rightarrow>
      case lookup_field kv ''this_thought_responses'' (Some []) (list_field (validate_step c)) of None \<Rightarrow> None | Some rs \<Rightarrow>
      case lookup_field kv ''current_thought_index'' (Some 0) int_field of None \<Rightarrow> None | Some idx \<Rightarrow>
      case lookup_field kv ''thought_complete'' (Some False) bool_field of None \<Rightarrow> None | Some complete \<Rightarrow>
      case lookup_field kv ''thought_had_error'' (Some False) bool_field of None \<Rightarrow> None | Some err \<Rightarrow>
      case lookup_field kv ''thought_status_msgs'' (Some []) (list_field str_field) of None \<Rightarrow> None | Some msgs \<Rightarrow>
        Some \<lparr>session_id = sid, thought_model = m, trigger_new_thought = trig, new_thought = k,
              this_thought_responses = rs, current_thought_index = idx, thought_complete = complete,
              thought_had_error = err, thought_status_msgs = msgs\<rparr>)"

fun ThoughtData_model_validate :: "nested_models \<Rightarrow> pyval \<Rightarrow> ThoughtData option" where
  "ThoughtData_model_validate c (PDict kv) = validate_fields c kv"
| "ThoughtData_model_validate c v = None"

definition model_validate_json :: "nested_models \<Rightarrow> pyval \<Rightarrow> error + ThoughtData" where
  "model_validate_json c v =
     (case ThoughtData_model_validate c v of None \<Rightarrow> Inl ValidationError | Some obj \<Rightarrow> Inr obj)"

text \<open>\<^verbatim>\<open>ThoughtData\<close> as a class the listing queries can work on.\<close>

definition ThoughtData_model :: "nested_models \<Rightarrow> (ThoughtData, pyval) Thought_model" where
  "ThoughtData_model c =
     \<lparr>model_dump = ThoughtData_model_dump c, model_validate = ThoughtData_model_validate c\<rparr>"

subsection \<open>Sample sessions\<close>

text \<open>A session object with the defaults of the class (lines 24 to 31).\<close>

definition new_session :: "string \<Rightarrow> ThoughtData" where
  "new_session sid =
     \<lparr>session_id = sid, thought_model = [], trigger_new_thought = False, new_thought = None,
      this_thought_responses = [], current_thought_index = 0, thought_complete = False,
      thought_had_error = False, thought_status_msgs = []\<rparr>"

definition sample_kickoff :: StartNewThoughtResponse where
  "sample_kickoff = \<lparr>response_type = REFLECT, rationale = ''R1''\<rparr>"

definition sample_step :: ReflectThoughtResponse where
  "sample_step = \<lparr>reflect_response_type = ''reflect''\<rparr>"

text \<open>An engine that answers, and one whose calls fail.\<close>

definition brain_up :: brain where
  "brain_up = \<lparr>get_new_thought_type = Inr sample_kickoff,
               run_reflect_thought = (\<lambda>r history. Inr sample_step)\<rparr>"

definition brain_down :: brain where
  "brain_down = \<lparr>get_new_thought_type = Inl (EngineError ''down''),
                 run_reflect_thought = (\<lambda>r history. Inl (EngineError ''down''))\<rparr>"

definition no_input :: widgets where
  "no_input = \<lparr>form_submit = None, continue_clicked = False\<rparr>"

definition continue_click :: widgets where
  "continue_click = \<lparr>form_submit = None, continue_clicked = True\<rparr>"

text \<open>A chain that has just been triggered with model "gpt-4"; nothing is stored yet.\<close>

definition triggered_world :: world where
  "triggered_world =
     \<lparr>session_data = (new_session ''s1'')\<lparr>trigger_new_thought := True, thought_model := ''gpt-4''\<rparr>,
      session_state = None, persisted = Map.empty, engine_calls = []\<rparr>"

text \<open>A chain with its kick-off and one step whose \<open>thought_complete\<close> flag is set.\<close>

definition completed_session :: ThoughtData where
  "completed_session =
     (new_session ''s2'')\<lparr>trigger_new_thought := True, thought_model := ''gpt-4'',
        new_thought := Some sample_kickoff, this_thought_responses := [sample_step],
        thought_complete := True,
        thought_status_msgs := [''Thought initiated s2'', ''Thought Model: gpt-4'',
          ''Thought Type: REFLECT'', ''Action: reflect'']\<rparr>"

definition completed_world :: world where
  "completed_world =
     \<lparr>session_data = completed_session, session_state = Some completed_session,
      persisted = [''s2'' \<mapsto> completed_session], engine_calls = []\<rparr>"

text \<open>
  Four runs of a triggered chain: the kick-off, a step, a step during which the engine is
  down, and another step.
\<close>

definition sample_runs :: "(brain \<times> widgets) list" where
  "sample_runs = [(brain_up, no_input), (brain_up, continue_click), (brain_down, continue_click),
     (brain_up, continue_click)]"

text \<open>Three runs of a triggered chain; the engine is down during the first.\<close>

definition retry_runs :: "(brain \<times> widgets) list" where
  "retry_runs = [(brain_down, no_input), (brain_up, no_input), (brain_up, continue_click)]"

text \<open>
  Sample encoders and decoders of the two response classes: \<open>REFLECT\<close> is written as the
  number 0, another thought type as its name.
\<close>

fun sample_type_field :: "pyval \<Rightarrow> ThoughtTypes option" where
  "sample_type_field (PInt i) = (if i = 0 then Some REFLECT else None)"
| "sample_type_field (PStr name) = Some (OTHER name)"
| "sample_type_field v = None"

fun sample_validate_kickoff :: "pyval \<Rightarrow> StartNewThoughtResponse option" where
  "sample_validate_kickoff (PDict kv) =
     (case lookup_field kv ''response_type'' None sample_type_field of None \<Rightarrow> None | Some t \<Rightarrow>
      case lookup_field kv ''rationale'' None str_field of None \<Rightarrow> None | Some r \<Rightarrow>
        Some \<lparr>response_type = t, rationale = r\<rparr>)"
| "sample_validate_kickoff v = None"

fun sample_validate_step :: "pyval \<Rightarrow> ReflectThoughtResponse option" where
  "sample_validate_step (PDict kv) =
     (case lookup_field kv ''response_type'' None str_field of None \<Rightarrow> None | Some t \<Rightarrow>
        Some \<lparr>reflect_response_type = t\<rparr>)"
| "sample_validate_step v = None"

definition sample_nested :: nested_models where
  "sample_nested =
     \<lparr>dump_kickoff = (\<lambda>k.
        [(''response_type'', (case response_type k of REFLECT \<Rightarrow> PInt 0 | OTHER name \<Rightarrow> PStr name)),
         (''rationale'', PStr (rationale k))]),
      validate_kickoff = sample_validate_kickoff,
      dump_step = (\<lambda>r. [(''response_type'', PStr (reflect_response_type r))]),
      validate_step = sample_validate_step\<rparr>"

text \<open>A store that answers with one completed and one incomplete session.\<close>

definition sample_memory :: "ThoughtData ThoughtMemory" where
  "sample_memory =
     \<lparr>memory_list_recently_completed_thoughts = (\<lambda>n. take n [completed_session]),
      memory_list_incomplete_thoughts = [new_session ''s3'']\<rparr>"

text \<open>Thoughts as triples of an id, the completed flag and the recency, dumped as they are.\<close>

type_synonym sample_thought = "string \<times> bool \<times> nat"

definition plain_model :: "(sample_thought, sample_thought) Thought_model" where
  "plain_model = \<lparr>model_dump = (\<lambda>t. t), model_validate = Some\<rparr>"

definition sample_table :: "sample_thought list" where
  "sample_table = [(''a'', True, 3), (''b'', False, 5), (''c'', True, 7), (''d'', True, 1)]"


text \<open>A store whose records all have an id, and one that holds records without.\<close>

definition sound_store :: "sample_thought ThoughtMemory" where
  "sound_store =
     \<lparr>memory_list_recently_completed_thoughts = (\<lambda>n. take n [(''c'', True, 7), (''a'', True, 3)]),
      memory_list_incomplete_thoughts = [(''b'', False, 5)]\<rparr>"

definition broken_store :: "sample_thought ThoughtMemory" where
  "broken_store =
     \<lparr>memory_list_recently_completed_thoughts = (\<lambda>n. take n [(''c'', True, 7), ([], True, 2)]),
      memory_list_incomplete_thoughts = [(''b'', False, 5), ([], False, 6)]\<rparr>"

section \<open>Properties\<close>

subsection \<open>Each piece of a run, and runs in sequence\<close>

lemmas mutator_defs = add_thought_status_msg_def add_reflect_thought_response_def
  save_to_session_state_def persist_session_state_def

lemma render_untriggered:
  assumes "\<not> trigger_new_thought (session_data w)"
  shows "render_main_functionality b ui w =
     (case form_submit ui of
        Some model \<Rightarrow> (RerunRequested, trigger_chain_of_thought model w)
      | None \<Rightarrow> (Stopped, w))"
  using assms by (simp add: render_main_functionality_def)

lemma render_triggered:
  assumes "trigger_new_thought (session_data w)"
  shows "snd (render_main_functionality b ui w) =
     (case select_thought_type b (initial_status_msgs w) of
        (Some e, w2) \<Rightarrow> w2
      | (None, w2) \<Rightarrow> snd (continue_thought_chain b ui w2))"
  using assms by (simp add: render_main_functionality_def split: prod.splits option.splits)

lemma render_triggered_lift:
  assumes trans: "\<And>u v x. R u v \<Longrightarrow> R v x \<Longrightarrow> R u x"
    and init: "\<And>u. R u (initial_status_msgs u)"
    and sel: "\<And>u. R u (snd (select_thought_type b u))"
    and cont: "\<And>u. R u (snd (continue_thought_chain b ui u))"
    and trig: "trigger_new_thought (session_data w)"
  shows "R w (snd (render_main_functionality b ui w))"
proof -
  obtain r w2 where s: "select_thought_type b (initial_status_msgs w) = (r, w2)"
    by (cases "select_thought_type b (initial_status_msgs w)")
  have "R (initial_status_msgs w) w2" using sel [of "initial_status_msgs w"] s by simp
  then have r2: "R w w2" using trans init by blast
  show ?thesis
  proof (cases r)
    case None
    have "R w (snd (continue_thought_chain b ui w2))" using trans r2 cont by blast
    then show ?thesis using None s by (simp add: render_triggered [OF trig])
  next
    case (Some e)
    then show ?thesis using r2 s by (simp add: render_triggered [OF trig])
  qed
qed

lemma render_lift:
  assumes refl: "\<And>u. R u u"
    and trans: "\<And>u v x. R u v \<Longrightarrow> R v x \<Longrightarrow> R u x"
    and trigger: "\<And>m u. R u (trigger_chain_of_thought m u)"
    and init: "\<And>u. R u (initial_status_msgs u)"
    and sel: "\<And>u. R u (snd (select_thought_type b u))"
    and cont: "\<And>u. R u (snd (continue_thought_chain b ui u))"
  shows "R w (snd (render_main_functionality b ui w))"
proof (cases "trigger_new_thought (session_data w)")
  case True
  show ?thesis by (rule render_triggered_lift [of R, OF trans init sel cont True])
next
  case False
  then show ?thesis by (simp add: render_untriggered refl trigger split: option.splits)
qed

lemma run_session_lift:
  assumes refl: "\<And>u. R u u"
    and trans: "\<And>u v x. R u v \<Longrightarrow> R v x \<Longrightarrow> R u x"
    and run: "\<And>b ui u. R u (snd (render_main_functionality b ui u))"
  shows "R w (run_session runs w)"
proof (induction runs arbitrary: w)
  case Nil
  show ?case by (simp add: refl)
next
  case (Cons a runs)
  obtain b ui where a: "a = (b, ui)" by (cases a)
  have "R w (run_session runs (snd (render_main_functionality b ui w)))"
    using trans run Cons.IH by blast
  then show ?case by (simp add: a)
qed

text \<open>The steps of a chain grow by exactly the step calls that returned.\<close>

lemma steps_balance_refl: "steps_balance w w"
  by (simp add: steps_balance_def)

lemma steps_balance_trans: "steps_balance w w1 \<Longrightarrow> steps_balance w1 w2 \<Longrightarrow> steps_balance w w2"
  by (simp add: steps_balance_def)

lemma render_steps_balance: "steps_balance w (snd (render_main_functionality b ui w))"
proof (rule render_lift [of steps_balance])
  show "steps_balance u u" for u by (rule steps_balance_refl)
  show "steps_balance u v \<Longrightarrow> steps_balance v x \<Longrightarrow> steps_balance u x" for u v x
    by (rule steps_balance_trans)
  show "steps_balance u (trigger_chain_of_thought m u)" for m u
    by (simp add: steps_balance_def trigger_chain_of_thought_def)
  show "steps_balance u (initial_status_msgs u)" for u
    by (simp add: steps_balance_def initial_status_msgs_def mutator_defs)
  show "steps_balance u (snd (select_thought_type b u))" for u
    by (simp add: steps_balance_def select_thought_type_def mutator_defs split: option.splits sum.splits)
  show "steps_balance u (snd (continue_thought_chain b ui u))" for u
    by (simp add: steps_balance_def continue_thought_chain_def mutator_defs split: option.splits sum.splits)
qed

lemma run_session_steps_balance: "steps_balance w (run_session runs w)"
  by (rule run_session_lift [of steps_balance, OF steps_balance_refl steps_balance_trans render_steps_balance])

text \<open>A kick-off that is set stays, and the engine is not asked for another.\<close>

lemma kickoff_kept_refl: "kickoff_kept w w"
  by (simp add: kickoff_kept_def split: option.splits)

lemma kickoff_kept_trans: "kickoff_kept w w1 \<Longrightarrow> kickoff_kept w1 w2 \<Longrightarrow> kickoff_kept w w2"
  by (auto simp: kickoff_kept_def split: option.splits)

lemma render_kickoff_kept: "kickoff_kept w (snd (render_main_functionality b ui w))"
proof (rule render_lift [of kickoff_kept])
  show "kickoff_kept u u" for u by (rule kickoff_kept_refl)
  show "kickoff_kept u v \<Longrightarrow> kickoff_kept v x \<Longrightarrow> kickoff_kept u x" for u v x
    by (rule kickoff_kept_trans)
  show "kickoff_kept u (trigger_chain_of_thought m u)" for m u
    by (simp add: kickoff_kept_def trigger_chain_of_thought_def split: option.splits)
  show "kickoff_kept u (initial_status_msgs u)" for u
    by (simp add: kickoff_kept_def initial_status_msgs_def mutator_defs split: option.splits)
  show "kickoff_kept u (snd (select_thought_type b u))" for u
    by (simp add: kickoff_kept_def select_thought_type_def mutator_defs split: option.splits sum.splits)
  show "kickoff_kept u (snd (continue_thought_chain b ui u))" for u
    by (simp add: kickoff_kept_def continue_thought_chain_def mutator_defs split: option.splits sum.splits)
qed

lemma run_session_kickoff_kept: "kickoff_kept w (run_session runs w)"
  by (rule run_session_lift [of kickoff_kept, OF kickoff_kept_refl kickoff_kept_trans render_kickoff_kept])

text \<open>The budget of kick-off calls never grows.\<close>

lemma render_classify_budget:
  "classify_budget (snd (render_main_functionality b ui w)) \<le> classify_budget w"
proof (rule render_lift [of "\<lambda>u v. classify_budget v \<le> classify_budget u"])
  show "classify_budget u \<le> classify_budget u" for u by simp
  show "classify_budget v \<le> classify_budget u \<Longrightarrow> classify_budget x \<le> classify_budget v
      \<Longrightarrow> classify_budget x \<le> classify_budget u" for u v x by simp
  show "classify_budget (trigger_chain_of_thought m u) \<le> classify_budget u" for m u
    by (simp add: classify_budget_def trigger_chain_of_thought_def)
  show "classify_budget (initial_status_msgs u) \<le> classify_budget u" for u
    by (simp add: classify_budget_def initial_status_msgs_def mutator_defs)
  show "classify_budget (snd (select_thought_type b u)) \<le> classify_budget u" for u
    by (simp add: classify_budget_def select_thought_type_def mutator_defs split: option.splits sum.splits)
  show "classify_budget (snd (continue_thought_chain b ui u)) \<le> classify_budget u" for u
    by (simp add: classify_budget_def continue_thought_chain_def mutator_defs split: option.splits sum.splits)
qed

lemma run_session_classify_budget: "classify_budget (run_session runs w) \<le> classify_budget w"
proof (rule run_session_lift [of "\<lambda>u v. classify_budget v \<le> classify_budget u"])
  show "classify_budget u \<le> classify_budget u" for u by simp
  show "classify_budget v \<le> classify_budget u \<Longrightarrow> classify_budget x \<le> classify_budget v
      \<Longrightarrow> classify_budget x \<le> classify_budget u" for u v x by simp
  show "classify_budget (snd (render_main_functionality b ui u)) \<le> classify_budget u" for b ui u
    by (rule render_classify_budget)
qed

text \<open>
  In a triggered chain every piece of a run either leaves the session object alone or
  ends with it saved to the session state.
\<close>

lemma quiet_or_saved_trans: "quiet_or_saved w w1 \<Longrightarrow> quiet_or_saved w1 w2 \<Longrightarrow> quiet_or_saved w w2"
  by (auto simp: quiet_or_saved_def saved_def split: if_splits)

lemma render_quiet_or_saved:
  assumes "trigger_new_thought (session_data w)"
  shows "quiet_or_saved w (snd (render_main_functionality b ui w))"
proof (rule render_triggered_lift [of quiet_or_saved, OF _ _ _ _ assms])
  show "quiet_or_saved u v \<Longrightarrow> quiet_or_saved v x \<Longrightarrow> quiet_or_saved u x" for u v x
    by (rule quiet_or_saved_trans)
  show "quiet_or_saved u (initial_status_msgs u)" for u
    by (simp add: quiet_or_saved_def saved_def initial_status_msgs_def mutator_defs)
  show "quiet_or_saved u (snd (select_thought_type b u))" for u
    by (simp add: quiet_or_saved_def saved_def select_thought_type_def mutator_defs split: option.splits sum.splits)
  show "quiet_or_saved u (snd (continue_thought_chain b ui u))" for u
    by (simp add: quiet_or_saved_def saved_def continue_thought_chain_def mutator_defs split: option.splits sum.splits)
qed

text \<open>
  The store after a run: it holds the session object whenever an engine call of the run
  returned.
\<close>

lemmas render_defs = render_main_functionality_def select_thought_type_def continue_thought_chain_def
  initial_status_msgs_def mutator_defs trigger_chain_of_thought_def display_responses_def

lemmas sample_defs = new_session_def sample_kickoff_def sample_step_def brain_up_def brain_down_def
  no_input_def continue_click_def triggered_world_def completed_session_def completed_world_def

lemma initial_status_msgs_calls: "engine_calls (initial_status_msgs w) = engine_calls w"
  by (simp add: initial_status_msgs_def mutator_defs)

lemma select_thought_type_cases:
  "(fst (select_thought_type b w) \<noteq> None
      \<and> engine_calls (snd (select_thought_type b w)) = engine_calls w @ [Classify False])
   \<or> (fst (select_thought_type b w) = None \<and> snd (select_thought_type b w) = w)
   \<or> (fst (select_thought_type b w) = None
      \<and> engine_calls (snd (select_thought_type b w)) = engine_calls w @ [Classify True]
      \<and> stored (snd (select_thought_type b w)))"
  by (simp add: select_thought_type_def stored_def mutator_defs split: option.splits sum.splits)

lemma continue_thought_chain_cases:
  "(engine_calls (snd (continue_thought_chain b ui w)) = engine_calls w
      \<and> (stored w \<longrightarrow> stored (snd (continue_thought_chain b ui w))))
   \<or> (engine_calls (snd (continue_thought_chain b ui w)) = engine_calls w @ [Step False]
      \<and> (stored w \<longrightarrow> stored (snd (continue_thought_chain b ui w))))
   \<or> (engine_calls (snd (continue_thought_chain b ui w)) = engine_calls w @ [Step True]
      \<and> stored (snd (continue_thought_chain b ui w)))"
  by (simp add: continue_thought_chain_def stored_def mutator_defs split: option.splits sum.splits)

lemma render_persisted:
  assumes "Classify True \<in> set (calls_since w (snd (render_main_functionality b ui w)))
     \<or> Step True \<in> set (calls_since w (snd (render_main_functionality b ui w)))"
  shows "stored (snd (render_main_functionality b ui w))"
proof (cases "trigger_new_thought (session_data w)")
  case False
  then have "engine_calls (snd (render_main_functionality b ui w)) = engine_calls w"
    by (simp add: render_untriggered trigger_chain_of_thought_def split: option.splits)
  then show ?thesis using assms by (simp add: calls_since_def)
next
  case True
  let ?w1 = "initial_status_msgs w"
  obtain r w2 where s: "select_thought_type b ?w1 = (r, w2)"
    by (cases "select_thought_type b ?w1")
  note c1 = initial_status_msgs_calls [of w]
  note sel = select_thought_type_cases [of b ?w1]
  show ?thesis
  proof (cases r)
    case (Some e)
    then have "snd (render_main_functionality b ui w) = w2"
      using s by (simp add: render_triggered [OF True])
    moreover have "engine_calls w2 = engine_calls w @ [Classify False]"
      using sel s Some c1 by simp
    ultimately show ?thesis using assms by (simp add: calls_since_def)
  next
    case None
    let ?w3 = "snd (continue_thought_chain b ui w2)"
    have w3: "snd (render_main_functionality b ui w) = ?w3"
      using s None by (simp add: render_triggered [OF True])
    note cont = continue_thought_chain_cases [of b ui w2]
    from sel s None have
      "w2 = ?w1 \<or> (engine_calls w2 = engine_calls w @ [Classify True] \<and> stored w2)"
      using c1 by auto
    then show ?thesis
    proof
      assume q: "w2 = ?w1"
      then have "engine_calls w2 = engine_calls w" using c1 by simp
      then show ?thesis using cont assms w3 by (auto simp: calls_since_def)
    next
      assume q: "engine_calls w2 = engine_calls w @ [Classify True] \<and> stored w2"
      then show ?thesis using cont w3 by auto
    qed
  qed
qed

lemma select_thought_type_quiet:
  "fst (select_thought_type b w) = None \<and> snd (select_thought_type b w) = w
   \<or> fst (select_thought_type b w) \<noteq> None
      \<and> persisted (snd (select_thought_type b w)) = persisted w
      \<and> engine_calls (snd (select_thought_type b w)) = engine_calls w @ [Classify False]
   \<or> fst (select_thought_type b w) = None
      \<and> engine_calls (snd (select_thought_type b w)) = engine_calls w @ [Classify True]"
  by (simp add: select_thought_type_def mutator_defs split: option.splits sum.splits)

lemma continue_thought_chain_quiet:
  "persisted (snd (continue_thought_chain b ui w)) = persisted w
   \<or> engine_calls (snd (continue_thought_chain b ui w)) = engine_calls w @ [Step True]"
  by (simp add: continue_thought_chain_def mutator_defs split: option.splits sum.splits)

lemma continue_thought_chain_extends:
  "\<exists>cs. engine_calls (snd (continue_thought_chain b ui w)) = engine_calls w @ cs"
  by (simp add: continue_thought_chain_def mutator_defs split: option.splits sum.splits)

lemma render_not_persisted:
  assumes "Classify True \<notin> set (calls_since w (snd (render_main_functionality b ui w)))"
    and "Step True \<notin> set (calls_since w (snd (render_main_functionality b ui w)))"
  shows "persisted (snd (render_main_functionality b ui w)) = persisted w"
proof (cases "trigger_new_thought (session_data w)")
  case False
  then show ?thesis
    by (simp add: render_untriggered trigger_chain_of_thought_def split: option.splits)
next
  case True
  let ?w1 = "initial_status_msgs w"
  obtain r w2 where s: "select_thought_type b ?w1 = (r, w2)"
    by (cases "select_thought_type b ?w1")
  have p1: "persisted ?w1 = persisted w"
    by (simp add: initial_status_msgs_def mutator_defs)
  note c1 = initial_status_msgs_calls [of w]
  note sel = select_thought_type_quiet [of b ?w1]
  show ?thesis
  proof (cases r)
    case (Some e)
    then have w2: "snd (render_main_functionality b ui w) = w2"
      using s by (simp add: render_triggered [OF True])
    from sel s Some have "persisted w2 = persisted ?w1"
      by auto
    then show ?thesis using w2 p1 by simp
  next
    case None
    let ?w3 = "snd (continue_thought_chain b ui w2)"
    have w3: "snd (render_main_functionality b ui w) = ?w3"
      using s None by (simp add: render_triggered [OF True])
    obtain cs where cs: "engine_calls ?w3 = engine_calls w2 @ cs"
      using continue_thought_chain_extends [of b ui w2] by blast
    from sel s None have
      "w2 = ?w1 \<or> engine_calls w2 = engine_calls w @ [Classify True]"
      using c1 by auto
    then show ?thesis
    proof
      assume q: "w2 = ?w1"
      then have e2: "engine_calls w2 = engine_calls w" and p2: "persisted w2 = persisted w"
        using c1 p1 by simp_all
      show ?thesis
        using continue_thought_chain_quiet [of b ui w2] assms(2) w3 e2 p2
        by (auto simp: calls_since_def)
    next
      assume "engine_calls w2 = engine_calls w @ [Classify True]"
      then have "Classify True \<in> set (calls_since w ?w3)"
        using cs by (simp add: calls_since_def)
      then show ?thesis using assms(1) w3 by simp
    qed
  qed
qed

subsection \<open>The claims about the thought chain\<close>

text \<open>
  C1 fails as stated: the "continue" block (lines 155 to 162) does not read
  \<open>thought_complete\<close>. On a chain whose flag is set and whose steps are one response, a
  "continue" action with an engine that answers appends a second response.
\<close>

theorem continue_after_complete_appends:
  "thought_complete (session_data completed_world)
   \<and> continue_clicked continue_click
   \<and> this_thought_responses (session_data completed_world) = [sample_step]
   \<and> this_thought_responses
        (session_data (snd (render_main_functionality brain_up continue_click completed_world)))
      = [sample_step, sample_step]"
  by (simp add: render_defs sample_defs)

text \<open>
  C1, as the code has it. For every triggered record with its kick-off set, completed or
  not, a "continue" action appends the engine's response to the steps and the message
  "Action: ..." to the status messages when the step call returns, and appends no step when
  the call fails; the kick-off, the completed flag and every field other than the steps and
  the status messages are unchanged in both cases.
\<close>

theorem continue_ignores_completed:
  assumes "trigger_new_thought (session_data w)"
    and "new_thought (session_data w) = Some k"
    and "continue_clicked ui"
  shows "(case run_reflect_thought b (rationale k) (this_thought_responses (session_data w)) of
            Inr r \<Rightarrow>
              session_data (snd (render_main_functionality b ui w)) =
                (session_data w)
                  \<lparr>this_thought_responses := this_thought_responses (session_data w) @ [r],
                   thought_status_msgs :=
                     thought_status_msgs (session_data (initial_status_msgs w))
                       @ [''Action: '' @ reflect_response_type r]\<rparr>
          | Inl e \<Rightarrow>
              session_data (snd (render_main_functionality b ui w)) =
                (session_data w)
                  \<lparr>thought_status_msgs := thought_status_msgs (session_data (initial_status_msgs w))\<rparr>)
         \<and> new_thought (session_data (snd (render_main_functionality b ui w))) = Some k
         \<and> thought_complete (session_data (snd (render_main_functionality b ui w)))
             = thought_complete (session_data w)"
  using assms by (simp add: render_defs split: sum.splits)

text \<open>The completed sample chain, continued with an engine that answers and with one that fails.\<close>

theorem continue_ignores_completed_witness:
  "session_data (snd (render_main_functionality brain_up continue_click completed_world)) =
     completed_session
       \<lparr>this_thought_responses := [sample_step, sample_step],
        thought_status_msgs := [''Thought initiated s2'', ''Thought Model: gpt-4'',
          ''Thought Type: REFLECT'', ''Action: reflect'', ''Action: reflect'']\<rparr>
   \<and> session_data (snd (render_main_functionality brain_down continue_click completed_world)) =
     completed_session"
  using continue_ignores_completed [of completed_world sample_kickoff continue_click brain_up]
    continue_ignores_completed [of completed_world sample_kickoff continue_click brain_down]
  by (simp add: sample_defs initial_status_msgs_def)

text \<open>
  C5 fails as stated: nothing catches the error of the kick-off call (lines 145 to 149) and
  nothing sets \<open>thought_had_error\<close>. On a chain that was just triggered, with the engine
  down, the error leaves the run, the flag stays unset, the status stays "running", and
  the store has no record of the chain.
\<close>

theorem failed_kickoff_not_errored:
  "get_new_thought_type brain_down = Inl (EngineError ''down'')
   \<and> fst (render_main_functionality brain_down no_input triggered_world) = Raised (EngineError ''down'')
   \<and> thought_had_error (session_data (snd (render_main_functionality brain_down no_input triggered_world))) = False
   \<and> get_thought_status (session_data (snd (render_main_functionality brain_down no_input triggered_world))) = ''running''
   \<and> persisted (snd (render_main_functionality brain_down no_input triggered_world)) ''s1'' = None"
  by (simp add: render_defs sample_defs get_thought_status_def)

text \<open>
  C5, as the code has it. If the kick-off call fails, its error leaves the run as an
  exception; the error flag, the completed flag and the steps are unchanged, the kick-off
  stays unset, and the run writes nothing to the store.
\<close>

theorem failed_kickoff_raises:
  assumes "trigger_new_thought (session_data w)"
    and "new_thought (session_data w) = None"
    and "get_new_thought_type b = Inl e"
  shows "fst (render_main_functionality b ui w) = Raised e
    \<and> thought_had_error (session_data (snd (render_main_functionality b ui w))) = thought_had_error (session_data w)
    \<and> thought_complete (session_data (snd (render_main_functionality b ui w))) = thought_complete (session_data w)
    \<and> new_thought (session_data (snd (render_main_functionality b ui w))) = None
    \<and> this_thought_responses (session_data (snd (render_main_functionality b ui w))) = this_thought_responses (session_data w)
    \<and> get_thought_status (session_data (snd (render_main_functionality b ui w)))
        = get_thought_status (session_data w)
    \<and> persisted (snd (render_main_functionality b ui w)) = persisted w
    \<and> engine_calls (snd (render_main_functionality b ui w)) = engine_calls w @ [Classify False]"
  using assms by (simp add: render_defs get_thought_status_def)

text \<open>The triggered sample chain with the engine down.\<close>

theorem failed_kickoff_raises_witness:
  "fst (render_main_functionality brain_down no_input triggered_world) = Raised (EngineError ''down'')
   \<and> new_thought (session_data (snd (render_main_functionality brain_down no_input triggered_world))) = None
   \<and> this_thought_responses (session_data (snd (render_main_functionality brain_down no_input triggered_world))) = []
   \<and> get_thought_status (session_data (snd (render_main_functionality brain_down no_input triggered_world)))
       = ''running''
   \<and> persisted (snd (render_main_functionality brain_down no_input triggered_world)) = Map.empty
   \<and> engine_calls (snd (render_main_functionality brain_down no_input triggered_world)) = [Classify False]"
  using failed_kickoff_raises [of triggered_world brain_down "EngineError ''down''" no_input]
  by (simp add: sample_defs get_thought_status_def)

text \<open>
  C4 fails as stated: \<open>add_thought_status_msg\<close> (lines 37 to 39) saves to the session
  state only. On a chain that was just triggered, with the engine down, the run appends
  the two initial status messages to the record in memory and the store holds no record.
\<close>

theorem status_msgs_not_persisted:
  "thought_status_msgs (session_data (snd (render_main_functionality brain_down no_input triggered_world)))
     = [''Thought initiated s1'', ''Thought Model: gpt-4'']
   \<and> thought_status_msgs (session_data triggered_world) = []
   \<and> persisted (snd (render_main_functionality brain_down no_input triggered_world))
        (session_id (session_data (snd (render_main_functionality brain_down no_input triggered_world))))
      = None"
  by (simp add: render_defs sample_defs)

text \<open>
  C4, as the code has it. In a run of a triggered chain every change of the record (a step
  appended, the kick-off set, a status message appended) ends with the record saved to the
  session state; after a run in which a call of the engine returned (the kick-off or a
  step), the store holds the record as it is in memory; and a run in which no call of the
  engine returned leaves the store as it was.
\<close>

theorem mutations_saved_engine_results_persisted:
  "(trigger_new_thought (session_data w)
      \<and> session_data (snd (render_main_functionality b ui w)) \<noteq> session_data w
     \<longrightarrow> session_state (snd (render_main_functionality b ui w))
           = Some (session_data (snd (render_main_functionality b ui w))))
   \<and> (Classify True \<in> set (calls_since w (snd (render_main_functionality b ui w)))
        \<or> Step True \<in> set (calls_since w (snd (render_main_functionality b ui w)))
     \<longrightarrow> persisted (snd (render_main_functionality b ui w))
             (session_id (session_data (snd (render_main_functionality b ui w))))
           = Some (session_data (snd (render_main_functionality b ui w))))
   \<and> (Classify True \<notin> set (calls_since w (snd (render_main_functionality b ui w)))
        \<and> Step True \<notin> set (calls_since w (snd (render_main_functionality b ui w)))
     \<longrightarrow> persisted (snd (render_main_functionality b ui w)) = persisted w)"
proof (intro conjI impI)
  assume "trigger_new_thought (session_data w)
      \<and> session_data (snd (render_main_functionality b ui w)) \<noteq> session_data w"
  then show "session_state (snd (render_main_functionality b ui w))
           = Some (session_data (snd (render_main_functionality b ui w)))"
    using render_quiet_or_saved [of w b ui] by (simp add: quiet_or_saved_def saved_def split: if_splits)
next
  assume "Classify True \<in> set (calls_since w (snd (render_main_functionality b ui w)))
        \<or> Step True \<in> set (calls_since w (snd (render_main_functionality b ui w)))"
  then show "persisted (snd (render_main_functionality b ui w))
             (session_id (session_data (snd (render_main_functionality b ui w))))
           = Some (session_data (snd (render_main_functionality b ui w)))"
    using render_persisted [of w b ui] by (simp add: stored_def)
next
  assume "Classify True \<notin> set (calls_since w (snd (render_main_functionality b ui w)))
        \<and> Step True \<notin> set (calls_since w (snd (render_main_functionality b ui w)))"
  then show "persisted (snd (render_main_functionality b ui w)) = persisted w"
    using render_not_persisted [of w b ui] by simp
qed

text \<open>The triggered sample chain: one run makes the kick-off and a step.\<close>

lemma sample_run_calls:
  "engine_calls (snd (render_main_functionality brain_up continue_click triggered_world)) = [Classify True, Step True]"
  by (simp add: render_defs sample_defs)

lemma sample_run_changes:
  "session_data (snd (render_main_functionality brain_up continue_click triggered_world)) \<noteq> session_data triggered_world"
  by (simp add: render_defs sample_defs)

theorem mutations_saved_engine_results_persisted_witness:
  "calls_since triggered_world (snd (render_main_functionality brain_up continue_click triggered_world))
     = [Classify True, Step True]
   \<and> session_state (snd (render_main_functionality brain_up continue_click triggered_world))
       = Some (session_data (snd (render_main_functionality brain_up continue_click triggered_world)))
   \<and> persisted (snd (render_main_functionality brain_up continue_click triggered_world)) ''s1''
       = Some (session_data (snd (render_main_functionality brain_up continue_click triggered_world)))
   \<and> calls_since triggered_world (snd (render_main_functionality brain_down no_input triggered_world))
     = [Classify False]
   \<and> persisted (snd (render_main_functionality brain_down no_input triggered_world)) = Map.empty"
proof -
  have d: "calls_since triggered_world (snd (render_main_functionality brain_down no_input triggered_world))
     = [Classify False]"
    by (simp add: calls_since_def render_defs sample_defs)
  have p: "persisted triggered_world = Map.empty"
    by (simp add: triggered_world_def)
  have c: "calls_since triggered_world (snd (render_main_functionality brain_up continue_click triggered_world))
     = [Classify True, Step True]"
    by (simp add: calls_since_def sample_run_calls) (simp add: triggered_world_def)
  have t: "trigger_new_thought (session_data triggered_world)"
    by (simp add: sample_defs)
  have i: "session_id (session_data (snd (render_main_functionality brain_up continue_click triggered_world))) = ''s1''"
    by (simp add: render_defs sample_defs)
  show ?thesis
    using mutations_saved_engine_results_persisted [of triggered_world brain_up continue_click]
      mutations_saved_engine_results_persisted [of triggered_world brain_down no_input]
      c t i d p sample_run_changes
    by simp
qed

text \<open>
  C2 fails as stated: a kick-off call that failed leaves \<open>new_thought\<close> unset, so the guard
  of line 145 lets the next run call the engine again. On a chain that was just triggered,
  with the engine down during the first of three runs, the kick-off operation is executed
  twice for the one record.
\<close>

theorem failed_kickoff_called_again:
  "new_thought (session_data triggered_world) = None
   \<and> engine_calls triggered_world = []
   \<and> filter is_classify (engine_calls (run_session retry_runs triggered_world))
       = [Classify False, Classify True]
   \<and> length (filter is_classify (engine_calls (run_session retry_runs triggered_world))) = 2"
  by (simp add: retry_runs_def render_defs sample_defs)

text \<open>
  C2, as the code has it. For every session whose record has its kick-off set, no run of
  the session calls the kick-off operation of the engine again and the kick-off stays as it
  is; a "continue" action on such a record goes straight to the step call, which is the
  only call of the run; over any sequence of runs the kick-off operation returns at most
  once more when the kick-off is not set at the start, and never again when it is; and
  every run of a triggered chain whose kick-off is not set executes the kick-off
  operation, a call that fails leaving the kick-off unset for the next run.
\<close>

theorem kickoff_classified_once:
  "(new_thought (session_data w) = Some k \<longrightarrow>
      new_thought (session_data (run_session runs w)) = Some k
      \<and> filter is_classify (engine_calls (run_session runs w)) = filter is_classify (engine_calls w))
   \<and> (trigger_new_thought (session_data w) \<and> new_thought (session_data w) = Some k
        \<and> continue_clicked ui \<longrightarrow>
      engine_calls (snd (render_main_functionality b ui w)) =
        engine_calls w
          @ [Step (\<not> isl (run_reflect_thought b (rationale k) (this_thought_responses (session_data w))))])
   \<and> count_list (engine_calls (run_session runs w)) (Classify True)
       \<le> count_list (engine_calls w) (Classify True)
           + (if new_thought (session_data w) = None then 1 else 0)
   \<and> (trigger_new_thought (session_data w) \<and> new_thought (session_data w) = None \<longrightarrow>
      (\<exists>later. engine_calls (snd (render_main_functionality b ui w)) =
          engine_calls w @ Classify (\<not> isl (get_new_thought_type b)) # later)
      \<and> (isl (get_new_thought_type b) \<longrightarrow>
           new_thought (session_data (snd (render_main_functionality b ui w))) = None
           \<and> engine_calls (snd (render_main_functionality b ui w)) = engine_calls w @ [Classify False]))"
proof (intro conjI impI)
  assume "new_thought (session_data w) = Some k"
  then show "new_thought (session_data (run_session runs w)) = Some k"
    and "filter is_classify (engine_calls (run_session runs w)) = filter is_classify (engine_calls w)"
    using run_session_kickoff_kept [of w runs] by (simp_all add: kickoff_kept_def)
next
  assume "trigger_new_thought (session_data w) \<and> new_thought (session_data w) = Some k
        \<and> continue_clicked ui"
  then show "engine_calls (snd (render_main_functionality b ui w)) =
        engine_calls w
          @ [Step (\<not> isl (run_reflect_thought b (rationale k) (this_thought_responses (session_data w))))]"
    by (simp add: render_defs split: sum.splits)
next
  have "count_list (engine_calls (run_session runs w)) (Classify True) \<le> classify_budget (run_session runs w)"
    by (simp add: classify_budget_def)
  also have "\<dots> \<le> classify_budget w" by (rule run_session_classify_budget)
  finally show "count_list (engine_calls (run_session runs w)) (Classify True)
       \<le> count_list (engine_calls w) (Classify True)
           + (if new_thought (session_data w) = None then 1 else 0)"
    by (simp add: classify_budget_def)
next
  assume a: "trigger_new_thought (session_data w) \<and> new_thought (session_data w) = None"
  then show "\<exists>later. engine_calls (snd (render_main_functionality b ui w)) =
          engine_calls w @ Classify (\<not> isl (get_new_thought_type b)) # later"
    by (cases "get_new_thought_type b") (simp_all add: render_defs split: sum.splits)
next
  assume a: "trigger_new_thought (session_data w) \<and> new_thought (session_data w) = None"
    and f: "isl (get_new_thought_type b)"
  then obtain e where e: "get_new_thought_type b = Inl e" by (cases "get_new_thought_type b") simp_all
  with a show "new_thought (session_data (snd (render_main_functionality b ui w))) = None"
    by (simp add: render_defs)
  from a e show "engine_calls (snd (render_main_functionality b ui w)) = engine_calls w @ [Classify False]"
    by (simp add: render_defs)
qed

text \<open>
  The completed sample chain, resumed and continued; and the triggered sample chain with
  the engine down during its first run.
\<close>

theorem kickoff_classified_once_witness:
  "new_thought (session_data (run_session [(brain_up, no_input), (brain_up, continue_click)] completed_world))
     = Some sample_kickoff
   \<and> engine_calls (run_session [(brain_up, no_input), (brain_up, continue_click)] completed_world)
     = [Step True]
   \<and> engine_calls (snd (render_main_functionality brain_up continue_click completed_world)) = [Step True]
   \<and> engine_calls (run_session retry_runs triggered_world) = [Classify False, Classify True, Step True]
   \<and> count_list (engine_calls (run_session retry_runs triggered_world)) (Classify True) = 1
   \<and> engine_calls (snd (render_main_functionality brain_down no_input triggered_world)) = [Classify False]
   \<and> new_thought (session_data (snd (render_main_functionality brain_down no_input triggered_world))) = None"
proof -
  have u: "trigger_new_thought (session_data triggered_world)"
    and n: "new_thought (session_data triggered_world) = None"
    and d: "isl (get_new_thought_type brain_down)"
    by (simp_all add: sample_defs)
  have k: "new_thought (session_data completed_world) = Some sample_kickoff"
    and t: "trigger_new_thought (session_data completed_world)"
    and c: "continue_clicked continue_click"
    and e: "engine_calls triggered_world = []"
    by (simp_all add: sample_defs)
  have r: "engine_calls (run_session [(brain_up, no_input), (brain_up, continue_click)] completed_world)
      = [Step True]"
    by (simp add: render_defs sample_defs)
  have q: "engine_calls (run_session retry_runs triggered_world) = [Classify False, Classify True, Step True]"
    by (simp add: retry_runs_def render_defs sample_defs)
  show ?thesis
    using kickoff_classified_once
        [of completed_world sample_kickoff "[(brain_up, no_input), (brain_up, continue_click)]"
          continue_click brain_up]
      kickoff_classified_once [of triggered_world sample_kickoff retry_runs no_input brain_down]
      k t c e r q u n d
    by (simp add: brain_up_def completed_world_def)
qed

text \<open>
  C6. Over every sequence of runs the steps grow by the number of step calls that returned;
  from a chain with no steps and an empty trace, the length of the steps is that number;
  and a "continue" action whose step call fails ends with the error and appends nothing.
\<close>

theorem steps_count_successful_calls:
  "length (this_thought_responses (session_data (run_session runs w)))
       + count_list (engine_calls w) (Step True)
     = length (this_thought_responses (session_data w))
       + count_list (engine_calls (run_session runs w)) (Step True)
   \<and> (this_thought_responses (session_data w) = [] \<and> engine_calls w = [] \<longrightarrow>
        length (this_thought_responses (session_data (run_session runs w)))
          = count_list (engine_calls (run_session runs w)) (Step True))
   \<and> (trigger_new_thought (session_data w) \<and> new_thought (session_data w) = Some k
        \<and> continue_clicked ui
        \<and> run_reflect_thought b (rationale k) (this_thought_responses (session_data w)) = Inl e \<longrightarrow>
        fst (render_main_functionality b ui w) = Raised e
        \<and> this_thought_responses (session_data (snd (render_main_functionality b ui w)))
            = this_thought_responses (session_data w))"
proof (intro conjI impI)
  show "length (this_thought_responses (session_data (run_session runs w)))
       + count_list (engine_calls w) (Step True)
     = length (this_thought_responses (session_data w))
       + count_list (engine_calls (run_session runs w)) (Step True)"
    using run_session_steps_balance [of w runs] by (simp add: steps_balance_def)
next
  assume "this_thought_responses (session_data w) = [] \<and> engine_calls w = []"
  then show "length (this_thought_responses (session_data (run_session runs w)))
          = count_list (engine_calls (run_session runs w)) (Step True)"
    using run_session_steps_balance [of w runs] by (simp add: steps_balance_def)
next
  assume a: "trigger_new_thought (session_data w) \<and> new_thought (session_data w) = Some k
        \<and> continue_clicked ui
        \<and> run_reflect_thought b (rationale k) (this_thought_responses (session_data w)) = Inl e"
  then show "fst (render_main_functionality b ui w) = Raised e"
    by (simp add: render_defs)
  from a show "this_thought_responses (session_data (snd (render_main_functionality b ui w)))
            = this_thought_responses (session_data w)"
    by (simp add: render_defs)
qed

text \<open>Four runs of the triggered sample chain, one with the engine down.\<close>

theorem steps_count_successful_calls_witness:
  "this_thought_responses (session_data triggered_world) = [] \<and> engine_calls triggered_world = []
   \<and> engine_calls (run_session sample_runs triggered_world)
       = [Classify True, Step True, Step False, Step True]
   \<and> length (this_thought_responses (session_data (run_session sample_runs triggered_world))) = 2
   \<and> fst (render_main_functionality brain_down continue_click completed_world) = Raised (EngineError ''down'')
   \<and> this_thought_responses (session_data (snd (render_main_functionality brain_down continue_click completed_world)))
       = [sample_step]"
proof -
  have s: "this_thought_responses (session_data triggered_world) = [] \<and> engine_calls triggered_world = []"
    by (simp add: sample_defs)
  have c: "engine_calls (run_session sample_runs triggered_world)
       = [Classify True, Step True, Step False, Step True]"
    by (simp add: sample_runs_def render_defs sample_defs)
  have h: "trigger_new_thought (session_data completed_world)
      \<and> new_thought (session_data completed_world) = Some sample_kickoff
      \<and> continue_clicked continue_click
      \<and> run_reflect_thought brain_down (rationale sample_kickoff)
          (this_thought_responses (session_data completed_world)) = Inl (EngineError ''down'')"
    by (simp add: sample_defs)
  have p: "this_thought_responses (session_data completed_world) = [sample_step]"
    by (simp add: sample_defs)
  show ?thesis
    using steps_count_successful_calls
        [of sample_runs triggered_world sample_kickoff continue_click brain_down "EngineError ''down''"]
      steps_count_successful_calls
        [of sample_runs completed_world sample_kickoff continue_click brain_down "EngineError ''down''"]
      s c h p
    by simp
qed

subsection \<open>The listing queries\<close>




lemma validate_python_roundtrip:
  "\<forall>t. model_validate M (model_dump M t) = Some t \<Longrightarrow> validate_python M (map (model_dump M) ts) = Inr ts"
  by (induction ts) auto

text \<open>The first \<open>n\<close> of a list sorted by falling key beat the rest.\<close>

lemma take_rev_sorted_top:
  assumes "sorted (map f ys)"
  shows "\<forall>t \<in> set (take n (rev ys)). \<forall>s \<in> set (drop n (rev ys)). f s \<le> f t"
proof -
  have "sorted (map f (rev (drop n (rev ys)) @ rev (take n (rev ys))))"
    using assms by (simp flip: rev_append)
  then show ?thesis by (auto simp: sorted_append)
qed

lemma recently_completed_top:
  fixes recency :: "'t \<Rightarrow> nat"
  shows "memory_list_recently_completed_thoughts (spec_memory completed recency table) n
      = take n (completed_by_recency completed recency table)"
    and "mset (take n (completed_by_recency completed recency table))
        + mset (drop n (completed_by_recency completed recency table)) = mset (filter completed table)"
    and "\<forall>t \<in> set (take n (completed_by_recency completed recency table)).
         \<forall>s \<in> set (drop n (completed_by_recency completed recency table)). recency s \<le> recency t"
    and "length (take n (completed_by_recency completed recency table))
        = min n (length (filter completed table))"
    and "sorted (rev (map recency (take n (completed_by_recency completed recency table))))"
proof -
  let ?all = "completed_by_recency completed recency table"
  show "memory_list_recently_completed_thoughts (spec_memory completed recency table) n = take n ?all"
    by (simp add: spec_memory_def)
  have "mset (take n ?all) + mset (drop n ?all) = mset ?all"
    by (simp flip: mset_append)
  then show "mset (take n ?all) + mset (drop n ?all) = mset (filter completed table)"
    by (simp add: completed_by_recency_def)
  show "\<forall>t \<in> set (take n ?all). \<forall>s \<in> set (drop n ?all). recency s \<le> recency t"
    unfolding completed_by_recency_def by (rule take_rev_sorted_top) (rule sorted_sort_key)
  show "length (take n ?all) = min n (length (filter completed table))"
    by (simp add: completed_by_recency_def min.commute)
  have "sorted (rev (map recency ?all))"
    by (simp add: completed_by_recency_def rev_map sorted_sort_key)
  then have "sorted (rev (map recency (take n ?all @ drop n ?all)))" by simp
  then show "sorted (rev (map recency (take n ?all)))"
    unfolding map_append rev_append by (simp add: sorted_append del: append_take_drop_id)
qed

text \<open>
  C8. For every \<open>n\<close> and every content of the store, the dictionaries that
  \<^verbatim>\<open>_list_recent_thoughts\<close> returns are the dumps of \<open>n\<close> records of the store (of all its
  completed records when there are fewer than \<open>n\<close>), each of them completed, and every
  completed record of the store that is left out is at most as recent as each record
  returned.
\<close>

theorem recently_completed_most_recent:
  fixes recency :: "'t \<Rightarrow> nat"
  shows "\<exists>top rest.
     private_list_recent_thoughts M (spec_memory completed recency table) n = map (model_dump M) top
     \<and> list_all completed top
     \<and> length top = min n (length (filter completed table))
     \<and> mset top + mset rest = mset (filter completed table)
     \<and> (\<forall>t \<in> set top. \<forall>s \<in> set rest. recency s \<le> recency t)"
proof (intro exI conjI)
  let ?all = "completed_by_recency completed recency table"
  show "private_list_recent_thoughts M (spec_memory completed recency table) n
      = map (model_dump M) (take n ?all)"
    by (simp add: private_list_recent_thoughts_def recently_completed_top(1))
  have "set (take n ?all) \<subseteq> set ?all" by (rule set_take_subset)
  then show "list_all completed (take n ?all)"
    by (auto simp: list_all_iff completed_by_recency_def)
  show "length (take n ?all) = min n (length (filter completed table))"
    by (rule recently_completed_top(4))
  show "mset (take n ?all) + mset (drop n ?all) = mset (filter completed table)"
    by (rule recently_completed_top(2))
  show "\<forall>t \<in> set (take n ?all). \<forall>s \<in> set (drop n ?all). recency s \<le> recency t"
    by (rule recently_completed_top(3))
qed

text \<open>Four thoughts, three of them completed: the two most recent completed ones.\<close>

theorem recently_completed_most_recent_witness:
  "private_list_recent_thoughts plain_model
     (spec_memory (\<lambda>t. fst (snd t)) (\<lambda>t. snd (snd t)) sample_table) 2
   = [(''c'', True, 7), (''a'', True, 3)]"
  using recently_completed_most_recent
    [of plain_model "\<lambda>t. fst (snd t)" "\<lambda>t. snd (snd t)" sample_table 2]
  by (simp add: private_list_recent_thoughts_def spec_memory_def completed_by_recency_def
      plain_model_def sample_table_def)



subsection \<open>The cache of the listing queries\<close>

text \<open>One call of a decorated function, case by case, and two calls in a row.\<close>

lemma cache_data_computed:
  assumes "snd (fst (cache_data body now key cache))"
  shows "cache_data body now key cache =
     ((body key, True), cache(key \<mapsto> \<lparr>cached_value = body key, computed_at = now\<rparr>))"
  using assms by (auto simp: cache_data_def split: option.splits if_splits)

lemma cache_data_hit:
  assumes "cache key = Some e" and "now < computed_at e + ttl"
  shows "cache_data body now key cache = ((cached_value e, False), cache)"
  using assms by (simp add: cache_data_def fresh_def)

lemma cache_data_expired:
  assumes "cache key = Some e" and "computed_at e + ttl \<le> now"
  shows "cache_data body now key cache =
     ((body key, True), cache(key \<mapsto> \<lparr>cached_value = body key, computed_at = now\<rparr>))"
  using assms by (simp add: cache_data_def fresh_def)

lemma cache_data_miss:
  assumes "cache key = None"
  shows "cache_data body now key cache =
     ((body key, True), cache(key \<mapsto> \<lparr>cached_value = body key, computed_at = now\<rparr>))"
  using assms by (simp add: cache_data_def)

lemma cache_data_other_key:
  assumes "other \<noteq> key"
  shows "snd (cache_data body now key cache) other = cache other"
  using assms by (simp add: cache_data_def split: option.splits)

lemma cache_data_twice:
  assumes first: "snd (fst (cache_data body now key cache))"
  shows "now' < now + ttl \<Longrightarrow>
      cache_data body' now' key (snd (cache_data body now key cache))
        = ((fst (fst (cache_data body now key cache)), False), snd (cache_data body now key cache))"
    and "now + ttl \<le> now' \<Longrightarrow>
      cache_data body' now' key (snd (cache_data body now key cache))
        = ((body' key, True),
           (snd (cache_data body now key cache))
             (key \<mapsto> \<lparr>cached_value = body' key, computed_at = now'\<rparr>))"
proof -
  have c: "cache_data body now key cache =
      ((body key, True), cache(key \<mapsto> \<lparr>cached_value = body key, computed_at = now\<rparr>))"
    by (rule cache_data_computed [OF first])
  show "now' < now + ttl \<Longrightarrow>
      cache_data body' now' key (snd (cache_data body now key cache))
        = ((fst (fst (cache_data body now key cache)), False), snd (cache_data body now key cache))"
    by (simp add: c) (simp add: cache_data_def fresh_def)
  show "now + ttl \<le> now' \<Longrightarrow>
      cache_data body' now' key (snd (cache_data body now key cache))
        = ((body' key, True),
           (snd (cache_data body now key cache))
             (key \<mapsto> \<lparr>cached_value = body' key, computed_at = now'\<rparr>))"
    by (simp add: c) (simp add: cache_data_def fresh_def)
qed

text \<open>
  C3. The freshness window is five seconds. A call of \<^verbatim>\<open>_list_recent_thoughts\<close> that finds
  no entry for its argument queries the store and returns what the store holds. After a
  call that computed its value, a call with the same argument before the window has
  elapsed returns that value again without running the body, whatever the store holds by
  then, and leaves the cache as it is; a call when the window has elapsed runs the body
  on the store as it is then, returns that value and stores it with the new time. A call
  leaves the entries of other arguments alone, and a call with another argument is not
  answered from this one's entry. The same two-call behaviour holds for
  \<^verbatim>\<open>_list_incomplete_thoughts\<close>.
\<close>

theorem cached_listing_window:
  "ttl = 5000
   \<and> (cache num = None \<longrightarrow>
        cached_list_recent_thoughts M memory now num cache
          = ((private_list_recent_thoughts M memory num, True),
             cache(num \<mapsto> \<lparr>cached_value = private_list_recent_thoughts M memory num, computed_at = now\<rparr>)))
   \<and> (snd (fst (cached_list_recent_thoughts M memory now num cache)) \<and> now' < now + ttl \<longrightarrow>
        cached_list_recent_thoughts M memory' now' num
            (snd (cached_list_recent_thoughts M memory now num cache))
          = ((fst (fst (cached_list_recent_thoughts M memory now num cache)), False),
             snd (cached_list_recent_thoughts M memory now num cache)))
   \<and> (snd (fst (cached_list_recent_thoughts M memory now num cache)) \<and> now + ttl \<le> now' \<longrightarrow>
        cached_list_recent_thoughts M memory' now' num
            (snd (cached_list_recent_thoughts M memory now num cache))
          = ((private_list_recent_thoughts M memory' num, True),
             (snd (cached_list_recent_thoughts M memory now num cache))
               (num \<mapsto> \<lparr>cached_value = private_list_recent_thoughts M memory' num, computed_at = now'\<rparr>)))
   \<and> (other \<noteq> num \<longrightarrow>
        snd (cached_list_recent_thoughts M memory now num cache) other = cache other)
   \<and> (other \<noteq> num \<and> cache other = None \<longrightarrow>
        fst (cached_list_recent_thoughts M memory' now' other
              (snd (cached_list_recent_thoughts M memory now num cache)))
          = (private_list_recent_thoughts M memory' other, True))
   \<and> (snd (fst (cached_list_incomplete_thoughts M memory now icache)) \<and> now' < now + ttl \<longrightarrow>
        cached_list_incomplete_thoughts M memory' now'
            (snd (cached_list_incomplete_thoughts M memory now icache))
          = ((fst (fst (cached_list_incomplete_thoughts M memory now icache)), False),
             snd (cached_list_incomplete_thoughts M memory now icache)))
   \<and> (snd (fst (cached_list_incomplete_thoughts M memory now icache)) \<and> now + ttl \<le> now' \<longrightarrow>
        cached_list_incomplete_thoughts M memory' now'
            (snd (cached_list_incomplete_thoughts M memory now icache))
          = ((private_list_incomplete_thoughts M memory', True),
             (snd (cached_list_incomplete_thoughts M memory now icache))
               (() \<mapsto> \<lparr>cached_value = private_list_incomplete_thoughts M memory', computed_at = now'\<rparr>)))"
proof (intro conjI impI)
  show "ttl = 5000" by (simp add: ttl_def)
next
  assume "cache num = None"
  then show "cached_list_recent_thoughts M memory now num cache
          = ((private_list_recent_thoughts M memory num, True),
             cache(num \<mapsto> \<lparr>cached_value = private_list_recent_thoughts M memory num, computed_at = now\<rparr>))"
    unfolding cached_list_recent_thoughts_def by (rule cache_data_miss)
next
  assume "snd (fst (cached_list_recent_thoughts M memory now num cache)) \<and> now' < now + ttl"
  then show "cached_list_recent_thoughts M memory' now' num
            (snd (cached_list_recent_thoughts M memory now num cache))
          = ((fst (fst (cached_list_recent_thoughts M memory now num cache)), False),
             snd (cached_list_recent_thoughts M memory now num cache))"
    unfolding cached_list_recent_thoughts_def by (simp add: cache_data_twice(1))
next
  assume "snd (fst (cached_list_recent_thoughts M memory now num cache)) \<and> now + ttl \<le> now'"
  then show "cached_list_recent_thoughts M memory' now' num
            (snd (cached_list_recent_thoughts M memory now num cache))
          = ((private_list_recent_thoughts M memory' num, True),
             (snd (cached_list_recent_thoughts M memory now num cache))
               (num \<mapsto> \<lparr>cached_value = private_list_recent_thoughts M memory' num, computed_at = now'\<rparr>))"
    unfolding cached_list_recent_thoughts_def by (simp add: cache_data_twice(2))
next
  assume "other \<noteq> num"
  then show "snd (cached_list_recent_thoughts M memory now num cache) other = cache other"
    unfolding cached_list_recent_thoughts_def by (rule cache_data_other_key)
next
  assume a: "other \<noteq> num \<and> cache other = None"
  then have "snd (cached_list_recent_thoughts M memory now num cache) other = None"
    unfolding cached_list_recent_thoughts_def by (simp add: cache_data_other_key)
  then show "fst (cached_list_recent_thoughts M memory' now' other
              (snd (cached_list_recent_thoughts M memory now num cache)))
          = (private_list_recent_thoughts M memory' other, True)"
    unfolding cached_list_recent_thoughts_def by (simp add: cache_data_miss)
next
  assume "snd (fst (cached_list_incomplete_thoughts M memory now icache)) \<and> now' < now + ttl"
  then show "cached_list_incomplete_thoughts M memory' now'
            (snd (cached_list_incomplete_thoughts M memory now icache))
          = ((fst (fst (cached_list_incomplete_thoughts M memory now icache)), False),
             snd (cached_list_incomplete_thoughts M memory now icache))"
    unfolding cached_list_incomplete_thoughts_def by (simp add: cache_data_twice(1))
next
  assume "snd (fst (cached_list_incomplete_thoughts M memory now icache)) \<and> now + ttl \<le> now'"
  then show "cached_list_incomplete_thoughts M memory' now'
            (snd (cached_list_incomplete_thoughts M memory now icache))
          = ((private_list_incomplete_thoughts M memory', True),
             (snd (cached_list_incomplete_thoughts M memory now icache))
               (() \<mapsto> \<lparr>cached_value = private_list_incomplete_thoughts M memory', computed_at = now'\<rparr>))"
    unfolding cached_list_incomplete_thoughts_def by (simp add: cache_data_twice(2))
qed

text \<open>
  A first call at second 1, the store changed afterwards, and calls at seconds 4 and 6;
  also a call at second 4 with another argument.
\<close>

lemmas cached_listing_defs = cached_list_recent_thoughts_def cached_list_incomplete_thoughts_def
  cache_data_def fresh_def ttl_def private_list_recent_thoughts_def
  private_list_incomplete_thoughts_def plain_model_def sound_store_def broken_store_def

lemma sample_first_call:
  "fst (cached_list_recent_thoughts plain_model sound_store 1000 5 Map.empty)
     = ([(''c'', True, 7), (''a'', True, 3)], True)"
  "fst (cached_list_incomplete_thoughts plain_model sound_store 1000 Map.empty)
     = ([(''b'', False, 5)], True)"
  by (simp_all add: cached_listing_defs)

theorem cached_listing_window_witness:
  "fst (cached_list_recent_thoughts plain_model sound_store 1000 5 Map.empty)
     = ([(''c'', True, 7), (''a'', True, 3)], True)
   \<and> fst (cached_list_recent_thoughts plain_model broken_store 4000 5
         (snd (cached_list_recent_thoughts plain_model sound_store 1000 5 Map.empty)))
     = ([(''c'', True, 7), (''a'', True, 3)], False)
   \<and> fst (cached_list_recent_thoughts plain_model broken_store 6000 5
         (snd (cached_list_recent_thoughts plain_model sound_store 1000 5 Map.empty)))
     = ([(''c'', True, 7), ([], True, 2)], True)
   \<and> fst (cached_list_recent_thoughts plain_model broken_store 4000 2
         (snd (cached_list_recent_thoughts plain_model sound_store 1000 5 Map.empty)))
     = ([(''c'', True, 7), ([], True, 2)], True)
   \<and> fst (cached_list_incomplete_thoughts plain_model broken_store 4000
         (snd (cached_list_incomplete_thoughts plain_model sound_store 1000 Map.empty)))
     = ([(''b'', False, 5)], False)
   \<and> fst (cached_list_incomplete_thoughts plain_model broken_store 6000
         (snd (cached_list_incomplete_thoughts plain_model sound_store 1000 Map.empty)))
     = ([(''b'', False, 5), ([], False, 6)], True)"
proof -
  let ?first = "cached_list_recent_thoughts plain_model sound_store 1000 5 Map.empty"
  let ?ifirst = "cached_list_incomplete_thoughts plain_model sound_store 1000 Map.empty"
  have r: "private_list_recent_thoughts plain_model broken_store 5 = [(''c'', True, 7), ([], True, 2)]"
    "private_list_recent_thoughts plain_model broken_store 2 = [(''c'', True, 7), ([], True, 2)]"
    "private_list_incomplete_thoughts plain_model broken_store = [(''b'', False, 5), ([], False, 6)]"
    by (simp_all add: private_list_recent_thoughts_def private_list_incomplete_thoughts_def
        plain_model_def broken_store_def)
  have t: "(4000::nat) < 1000 + ttl" "1000 + ttl \<le> (6000::nat)"
    by (simp_all add: ttl_def)
  have f: "snd (fst ?first)" "snd (fst ?ifirst)"
    by (simp_all add: sample_first_call)
  note early = cached_listing_window
    [of "Map.empty :: nat \<rightharpoonup> sample_thought list cache_entry" 5 plain_model sound_store 1000
      4000 broken_store 2 Map.empty]
  note late = cached_listing_window
    [of "Map.empty :: nat \<rightharpoonup> sample_thought list cache_entry" 5 plain_model sound_store 1000
      6000 broken_store 2 Map.empty]
  have a: "cached_list_recent_thoughts plain_model broken_store 4000 5 (snd ?first)
      = ((fst (fst ?first), False), snd ?first)"
    using early f(1) t(1) by blast
  have b: "cached_list_recent_thoughts plain_model broken_store 6000 5 (snd ?first)
      = ((private_list_recent_thoughts plain_model broken_store 5, True),
         (snd ?first)(5 \<mapsto> \<lparr>cached_value = private_list_recent_thoughts plain_model broken_store 5,
            computed_at = 6000\<rparr>))"
    using late f(1) t(2) by blast
  have n: "(2::nat) \<noteq> 5 \<and> (Map.empty :: nat \<rightharpoonup> sample_thought list cache_entry) 2 = None"
    by simp
  have c: "fst (cached_list_recent_thoughts plain_model broken_store 4000 2 (snd ?first))
      = (private_list_recent_thoughts plain_model broken_store 2, True)"
    using early n by blast
  have d: "cached_list_incomplete_thoughts plain_model broken_store 4000 (snd ?ifirst)
      = ((fst (fst ?ifirst), False), snd ?ifirst)"
    using early f(2) t(1) by blast
  have e: "cached_list_incomplete_thoughts plain_model broken_store 6000 (snd ?ifirst)
      = ((private_list_incomplete_thoughts plain_model broken_store, True),
         (snd ?ifirst)(() \<mapsto> \<lparr>cached_value = private_list_incomplete_thoughts plain_model broken_store,
            computed_at = 6000\<rparr>))"
    using late f(2) t(2) by blast
  show ?thesis
    by (simp add: a b c d e r sample_first_call)
qed

subsection \<open>Serialized records\<close>

lemma those_valid_map:
  "\<forall>x. item (enc x) = Some x \<Longrightarrow> those_valid (map item (map enc xs)) = Some xs"
  by (induction xs) auto

lemma list_field_roundtrip:
  "\<forall>x. item (enc x) = Some x \<Longrightarrow> list_field item (PList (map enc xs)) = Some xs"
  using those_valid_map [of item enc xs] by simp

lemma model_dump_dict_lookup:
  "map_of (model_dump_dict c self) ''session_id'' = Some (PStr (session_id self))"
  "map_of (model_dump_dict c self) ''thought_model'' = Some (PStr (thought_model self))"
  "map_of (model_dump_dict c self) ''trigger_new_thought'' = Some (PBool (trigger_new_thought self))"
  "map_of (model_dump_dict c self) ''new_thought'' =
     Some (case new_thought self of None \<Rightarrow> PNone | Some k \<Rightarrow> PDict (dump_kickoff c k))"
  "map_of (model_dump_dict c self) ''this_thought_responses'' =
     Some (PList (map (\<lambda>r. PDict (dump_step c r)) (this_thought_responses self)))"
  "map_of (model_dump_dict c self) ''current_thought_index'' = Some (PInt (current_thought_index self))"
  "map_of (model_dump_dict c self) ''thought_complete'' = Some (PBool (thought_complete self))"
  "map_of (model_dump_dict c self) ''thought_had_error'' = Some (PBool (thought_had_error self))"
  "map_of (model_dump_dict c self) ''thought_status_msgs'' = Some (PList (map PStr (thought_status_msgs self)))"
  by (simp_all add: model_dump_dict_def)

lemma ThoughtData_roundtrip:
  assumes k: "\<forall>k. validate_kickoff c (PDict (dump_kickoff c k)) = Some k"
    and s: "\<forall>r. validate_step c (PDict (dump_step c r)) = Some r"
  shows "ThoughtData_model_validate c (ThoughtData_model_dump c self) = Some self"
proof -
  have rs: "list_field (validate_step c) (PList (map (\<lambda>r. PDict (dump_step c r)) (this_thought_responses self)))
      = Some (this_thought_responses self)"
    using list_field_roundtrip [of "validate_step c" "\<lambda>r. PDict (dump_step c r)"] s by simp
  have ms: "list_field str_field (PList (map PStr (thought_status_msgs self))) = Some (thought_status_msgs self)"
    using list_field_roundtrip [of str_field PStr] by simp
  have ko: "optional_field (validate_kickoff c)
        (case new_thought self of None \<Rightarrow> PNone | Some k \<Rightarrow> PDict (dump_kickoff c k))
      = Some (new_thought self)"
    using k by (cases "new_thought self") simp_all
  have "validate_fields c (model_dump_dict c self) = Some self"
    by (simp add: validate_fields_def lookup_field_def model_dump_dict_lookup rs ms ko
        del: list_field.simps optional_field.simps)
  then show ?thesis by (simp add: ThoughtData_model_dump_def)
qed

lemma sample_nested_kickoff:
  "validate_kickoff sample_nested (PDict (dump_kickoff sample_nested k)) = Some k"
  by (cases k; cases "response_type k") (simp_all add: sample_nested_def lookup_field_def)

lemma sample_nested_step:
  "validate_step sample_nested (PDict (dump_step sample_nested r)) = Some r"
  by (cases r) (simp add: sample_nested_def lookup_field_def)

text \<open>
  C7. Serializing a record and validating the result gives the record back, with its steps
  in their order and every field as it was, provided the encoders of the two response
  classes round-trip; and a listing query over a class whose dump and validation round-trip
  returns the objects of the store as they are, in their order.
\<close>

theorem serialized_record_roundtrip:
  "((\<forall>k. validate_kickoff c (PDict (dump_kickoff c k)) = Some k)
      \<and> (\<forall>r. validate_step c (PDict (dump_step c r)) = Some r)
     \<longrightarrow> model_validate_json c (model_dump_json c self) = Inr self)
   \<and> ((\<forall>t. model_validate M (model_dump M t) = Some t)
     \<longrightarrow> list_recent_thoughts M memory num = Inr (memory_list_recently_completed_thoughts memory num)
       \<and> list_incomplete_thoughts M memory = Inr (memory_list_incomplete_thoughts memory))"
proof (intro conjI impI)
  assume "(\<forall>k. validate_kickoff c (PDict (dump_kickoff c k)) = Some k)
      \<and> (\<forall>r. validate_step c (PDict (dump_step c r)) = Some r)"
  then show "model_validate_json c (model_dump_json c self) = Inr self"
    using ThoughtData_roundtrip [of c self]
    by (simp add: model_validate_json_def model_dump_json_def)
next
  assume r: "\<forall>t. model_validate M (model_dump M t) = Some t"
  show "list_recent_thoughts M memory num = Inr (memory_list_recently_completed_thoughts memory num)"
    using validate_python_roundtrip [OF r]
    by (simp add: list_recent_thoughts_def private_list_recent_thoughts_def)
  show "list_incomplete_thoughts M memory = Inr (memory_list_incomplete_thoughts memory)"
    using validate_python_roundtrip [OF r]
    by (simp add: list_incomplete_thoughts_def private_list_incomplete_thoughts_def)
qed

text \<open>The completed sample session, and the sample store listed through \<^verbatim>\<open>ThoughtData\<close>.\<close>

theorem serialized_record_roundtrip_witness:
  "model_validate_json sample_nested (model_dump_json sample_nested completed_session) = Inr completed_session
   \<and> list_recent_thoughts (ThoughtData_model sample_nested) sample_memory 5 = Inr [completed_session]
   \<and> list_incomplete_thoughts (ThoughtData_model sample_nested) sample_memory = Inr [new_session ''s3'']"
proof -
  have n: "(\<forall>k. validate_kickoff sample_nested (PDict (dump_kickoff sample_nested k)) = Some k)
      \<and> (\<forall>r. validate_step sample_nested (PDict (dump_step sample_nested r)) = Some r)"
    by (simp add: sample_nested_kickoff sample_nested_step)
  then have m: "\<forall>t. model_validate (ThoughtData_model sample_nested)
      (model_dump (ThoughtData_model sample_nested) t) = Some t"
    by (simp add: ThoughtData_model_def ThoughtData_roundtrip)
  show ?thesis
    using serialized_record_roundtrip
        [of sample_nested completed_session "ThoughtData_model sample_nested" sample_memory 5] n m
    by (simp add: sample_memory_def)
qed

subsection \<open>The status of a chain\<close>

text \<open>
  C10. \<open>get_thought_status\<close> answers one of "error", "complete", "running" for every
  record: "error" whenever \<open>thought_had_error\<close> is set, also when \<open>thought_complete\<close> is
  set too; "complete" when only \<open>thought_complete\<close> is set; "running" when neither is.
\<close>

theorem get_thought_status_total:
  "get_thought_status r \<in> {''error'', ''complete'', ''running''}
   \<and> (thought_had_error r \<longrightarrow> get_thought_status r = ''error'')
   \<and> (thought_complete r \<and> \<not> thought_had_error r \<longrightarrow> get_thought_status r = ''complete'')
   \<and> (\<not> thought_complete r \<and> \<not> thought_had_error r \<longrightarrow> get_thought_status r = ''running'')"
  by (simp add: get_thought_status_def)

text \<open>The four combinations of the two flags.\<close>

theorem get_thought_status_total_witness:
  "get_thought_status ((new_session ''s1'')\<lparr>thought_complete := True, thought_had_error := True\<rparr>) = ''error''
   \<and> get_thought_status ((new_session ''s1'')\<lparr>thought_had_error := True\<rparr>) = ''error''
   \<and> get_thought_status ((new_session ''s1'')\<lparr>thought_complete := True\<rparr>) = ''complete''
   \<and> get_thought_status (new_session ''s1'') = ''running''"
  using get_thought_status_total [of "(new_session ''s1'')\<lparr>thought_complete := True, thought_had_error := True\<rparr>"]
    get_thought_status_total [of "(new_session ''s1'')\<lparr>thought_had_error := True\<rparr>"]
    get_thought_status_total [of "(new_session ''s1'')\<lparr>thought_complete := True\<rparr>"]
    get_thought_status_total [of "new_session ''s1''"]
  by (simp add: new_session_def)

end
